theory Spec2Isabelle
  imports Main
begin

section \<open>JavaScript values\<close>

text \<open>
  The module \<^verbatim>\<open>index.js\<close> computes with pitch arrays \<^verbatim>\<open>[p0, p1, p2]\<close> whose slots
  hold integers or \<^verbatim>\<open>null\<close>. A slot value is modelled by \<open>jsval\<close>: \<open>Num k\<close> is the
  JavaScript number with the integer value \<open>k\<close>, \<open>NaN\<close> the not-a-number value that
  arithmetic on \<^verbatim>\<open>undefined\<close> produces, \<open>Null\<close> and \<open>Undefined\<close> the two empty values.
  The model identifies \<^verbatim>\<open>-0\<close> with \<^verbatim>\<open>0\<close> (as \<^verbatim>\<open>===\<close> does).

  JavaScript numbers are binary64 values. Every integer of magnitude at most \<open>2^53\<close> is
  one of them, and a sum, difference or product of two of them is computed exactly
  whenever the exact result is again such an integer; beyond that the code rounds. The
  arithmetic operators below compute the exact integer result, so they agree with the code
  on operands and results that satisfy \<open>safe_int\<close>, and only there. A theorem whose
  conclusion is the value of a sum, difference or product of arbitrary integers therefore
  assumes \<open>safe_int\<close> of the operands and of every intermediate result.
\<close>

datatype jsval = Undefined | Null | NaN | Num int

text \<open>
  A value passed as pitch or interval argument: \<^verbatim>\<open>null\<close>, \<^verbatim>\<open>undefined\<close> or an array of
  slots (of any length).
\<close>

datatype pitch = PUndefined | PNull | PArray "jsval list"

datatype error = TypeError

text \<open>Truthiness of an argument (\<^verbatim>\<open>p ? .. : ..\<close>, \<^verbatim>\<open>!a\<close>): every array is truthy.\<close>

fun truthy :: "pitch \<Rightarrow> bool" where
  "truthy (PArray xs) = True"
| "truthy PNull = False"
| "truthy PUndefined = False"

text \<open>Reading index \<open>n\<close> of an array: \<^verbatim>\<open>undefined\<close> beyond its length.\<close>

definition at :: "jsval list \<Rightarrow> nat \<Rightarrow> jsval" where
  "at xs n = (if n < length xs then xs ! n else Undefined)"

text \<open>
  The property read \<^verbatim>\<open>p[n]\<close> on an argument: a \<^verbatim>\<open>TypeError\<close> on \<^verbatim>\<open>null\<close> and
  \<^verbatim>\<open>undefined\<close>.
\<close>

fun get :: "pitch \<Rightarrow> nat \<Rightarrow> error + jsval" where
  "get (PArray xs) n = Inr (at xs n)"
| "get PNull n = Inl TypeError"
| "get PUndefined n = Inl TypeError"

text \<open>Sequencing of computations that may throw.\<close>

fun thenR :: "error + 'a \<Rightarrow> ('a \<Rightarrow> error + 'b) \<Rightarrow> error + 'b" where
  "thenR (Inl e) f = Inl e"
| "thenR (Inr x) f = f x"

text \<open>
  \<^verbatim>\<open>ToNumber\<close>: \<^verbatim>\<open>null\<close> becomes \<open>0\<close>, \<^verbatim>\<open>undefined\<close> becomes \<open>NaN\<close>. The result is
  \<open>Num k\<close> or \<open>NaN\<close>.
\<close>

fun toNumber :: "jsval \<Rightarrow> jsval" where
  "toNumber Undefined = NaN"
| "toNumber Null = Num 0"
| "toNumber NaN = NaN"
| "toNumber (Num k) = Num k"

text \<open>
  The arithmetic operators on slot values (no operand is a string, so \<^verbatim>\<open>+\<close> is
  numeric addition). \<^verbatim>\<open>%\<close> is the remainder of the truncating division: its sign is
  the sign of the dividend. \<open>js_add\<close>, \<open>js_sub\<close> and \<open>js_mul\<close> return the exact
  integer; this is the binary64 result when the operands and the exact result are
  integers of magnitude at most \<open>2^53\<close>, and the code rounds otherwise. The remainder
  is exact in binary64 for every operand.
\<close>

definition js_add :: "jsval \<Rightarrow> jsval \<Rightarrow> jsval" where
  "js_add a b = (case (toNumber a, toNumber b) of
      (Num x, Num y) \<Rightarrow> Num (x + y)
    | _ \<Rightarrow> NaN)"

definition js_sub :: "jsval \<Rightarrow> jsval \<Rightarrow> jsval" where
  "js_sub a b = (case (toNumber a, toNumber b) of
      (Num x, Num y) \<Rightarrow> Num (x - y)
    | _ \<Rightarrow> NaN)"

definition js_mul :: "jsval \<Rightarrow> jsval \<Rightarrow> jsval" where
  "js_mul a b = (case (toNumber a, toNumber b) of
      (Num x, Num y) \<Rightarrow> Num (x * y)
    | _ \<Rightarrow> NaN)"

definition trunc_rem :: "int \<Rightarrow> int \<Rightarrow> int" where
  "trunc_rem x y = sgn x * (\<bar>x\<bar> mod \<bar>y\<bar>)"

definition js_rem :: "jsval \<Rightarrow> jsval \<Rightarrow> jsval" where
  "js_rem a b = (case (toNumber a, toNumber b) of
      (Num x, Num y) \<Rightarrow> (if y = 0 then NaN else Num (trunc_rem x y))
    | _ \<Rightarrow> NaN)"


text \<open>
  The integers on which binary64 arithmetic is exact: magnitude at most \<open>2^53\<close>. A slot
  is safe when it holds such an integer or \<^verbatim>\<open>null\<close> (which arithmetic reads as \<open>0\<close>).
\<close>

definition safe_int :: "int \<Rightarrow> bool" where
  "safe_int x = (\<bar>x\<bar> \<le> 2 ^ 53)"

fun safe_slot :: "jsval \<Rightarrow> bool" where
  "safe_slot (Num k) = safe_int k"
| "safe_slot Null = True"
| "safe_slot NaN = False"
| "safe_slot Undefined = False"

text \<open>
  The computed member access \<^verbatim>\<open>xs[key]\<close> on an array: an element for an integer key
  within the bounds, \<^verbatim>\<open>undefined\<close> for every other key (a negative number, \<open>NaN\<close>).
\<close>

fun js_index :: "jsval list \<Rightarrow> jsval \<Rightarrow> jsval" where
  "js_index xs (Num k) = (if 0 \<le> k \<and> k < int (length xs) then xs ! nat k else Undefined)"
| "js_index xs Undefined = Undefined"
| "js_index xs Null = Undefined"
| "js_index xs NaN = Undefined"

section \<open>The operations of \<^verbatim>\<open>index.js\<close>\<close>

definition SEMITONES :: "jsval list" where
  "SEMITONES = [Num 0, Num 2, Num 4, Num 5, Num 7, Num 9, Num 11]"

text \<open>\<^verbatim>\<open>op.pitchClass = function (p) { return p ? [p[0], p[1], null] : null }\<close>\<close>

definition pitchClass :: "pitch \<Rightarrow> error + pitch" where
  "pitchClass p =
     (if truthy p
      then thenR (get p 0) (\<lambda>p0. thenR (get p 1) (\<lambda>p1. Inr (PArray [p0, p1, Null])))
      else Inr PNull)"

text \<open>
  \<^verbatim>\<open>op.setOctave\<close> branches on the number of arguments. \<open>setOctave1 num\<close> is the call
  with one argument, which returns the closure; \<open>setOctave num p\<close> is the call with two,
  which applies that closure to \<open>p\<close>.
\<close>

definition setOctave1 :: "jsval \<Rightarrow> pitch \<Rightarrow> error + pitch" where
  "setOctave1 num = (\<lambda>p.
     if truthy p
     then thenR (get p 0) (\<lambda>p0. thenR (get p 1) (\<lambda>p1. Inr (PArray [p0, p1, num])))
     else Inr PNull)"

definition setOctave :: "jsval \<Rightarrow> pitch \<Rightarrow> error + pitch" where
  "setOctave num p = setOctave1 num p"

text \<open>\<^verbatim>\<open>op.simplify = op.setOctave(0)\<close>\<close>

definition simplify :: "pitch \<Rightarrow> error + pitch" where
  "simplify = setOctave1 (Num 0)"

text \<open>
  \<^verbatim>\<open>op.setDefaultOctave\<close>, with the same two entry points. The closure is
  \<^verbatim>\<open>function (i) { return i && i[2] === null ? [i[0], i[1], octave] : i }\<close>:
  \<^verbatim>\<open>i[2]\<close> is read only when \<^verbatim>\<open>i\<close> is truthy.
\<close>

definition setDefaultOctave1 :: "jsval \<Rightarrow> pitch \<Rightarrow> error + pitch" where
  "setDefaultOctave1 octave = (\<lambda>i.
     if truthy i
     then thenR (get i 2) (\<lambda>i2.
            if i2 = Null
            then thenR (get i 0) (\<lambda>i0. thenR (get i 1) (\<lambda>i1. Inr (PArray [i0, i1, octave])))
            else Inr i)
     else Inr i)"

definition setDefaultOctave :: "jsval \<Rightarrow> pitch \<Rightarrow> error + pitch" where
  "setDefaultOctave octave p = setDefaultOctave1 octave p"

text \<open>
  \<^verbatim>\<open>op.semitones = function (i) { return i ? SEMITONES[i[0] % 7] + i[1] + 12 * i[2] : null }\<close>
\<close>

definition semitones :: "pitch \<Rightarrow> error + jsval" where
  "semitones i =
     (if truthy i
      then thenR (get i 0) (\<lambda>i0. thenR (get i 1) (\<lambda>i1. thenR (get i 2) (\<lambda>i2.
             Inr (js_add (js_add (js_index SEMITONES (js_rem i0 (Num 7))) i1)
                         (js_mul (Num 12) i2)))))
      else Inr Null)"


text \<open>
  The formula of the specification for \<^verbatim>\<open>semitones\<close>, with the mathematical \<open>mod\<close>:
  \<open>SEMITONES[fifths mod 7] + step + 12 * octave\<close>.
\<close>

definition semitones_spec :: "int \<Rightarrow> int \<Rightarrow> int \<Rightarrow> int" where
  "semitones_spec f s k = [0, 2, 4, 5, 7, 9, 11] ! nat (f mod 7) + s + 12 * k"

section \<open>The fifths-space codec and the combining operations\<close>

text \<open>
  \<^verbatim>\<open>var fifths = require('pitch-fifths')\<close> is an external module: \<^verbatim>\<open>fifths(a)\<close> encodes a
  pitch array as a pair \<^verbatim>\<open>[fifths, octaves]\<close> and \<^verbatim>\<open>fifths.toPitch(pair)\<close> decodes such a
  pair. Its code is not part of \<^verbatim>\<open>index.js\<close>, so the operations below take the codec as a
  parameter. Both functions are total here (the encoder returns an array), which is the
  contract the specification gives for the codec; an exception raised inside the codec is
  outside this model.
\<close>

record codec =
  fifths :: "pitch \<Rightarrow> jsval list"
  toPitch :: "jsval list \<Rightarrow> pitch"

text \<open>
  The local function \<^verbatim>\<open>add\<close>:
  \<^verbatim>\<open>var fifths = a[0] + b[0]\<close>,
  \<^verbatim>\<open>var octaves = a[1] === null || b[1] === null ? null : a[1] + b[1]\<close>.
\<close>

definition add :: "jsval list \<Rightarrow> jsval list \<Rightarrow> jsval list" where
  "add a b =
     [js_add (at a 0) (at b 0),
      if at a 1 = Null \<or> at b 1 = Null then Null else js_add (at a 1) (at b 1)]"

text \<open>\<^verbatim>\<open>op.add\<close>: \<^verbatim>\<open>if (!a || !b) return null\<close>, then encode, add, decode.\<close>

definition op_add :: "codec \<Rightarrow> pitch \<Rightarrow> pitch \<Rightarrow> pitch" where
  "op_add cdc a b =
     (if \<not> truthy a \<or> \<not> truthy b then PNull
      else toPitch cdc (add (fifths cdc a) (fifths cdc b)))"

text \<open>
  The local function \<^verbatim>\<open>subtract\<close>:
  \<^verbatim>\<open>var fifths = b[0] - a[0]\<close>,
  \<^verbatim>\<open>var octaves = a[1] !== null && b[1] !== null ? b[1] - a[1] : null\<close>.
\<close>

definition subtract :: "jsval list \<Rightarrow> jsval list \<Rightarrow> jsval list" where
  "subtract a b =
     [js_sub (at b 0) (at a 0),
      if at a 1 \<noteq> Null \<and> at b 1 \<noteq> Null then js_sub (at b 1) (at a 1) else Null]"

definition op_subtract :: "codec \<Rightarrow> pitch \<Rightarrow> pitch \<Rightarrow> pitch" where
  "op_subtract cdc a b =
     (if \<not> truthy a \<or> \<not> truthy b then PNull
      else toPitch cdc (subtract (fifths cdc a) (fifths cdc b)))"

text \<open>
  The local function
  \<^verbatim>\<open>multiply (m, a) { return [m * a[0], a[1] === null ? null : m * a[1]] }\<close>
  and \<^verbatim>\<open>op.multiply\<close>, which passes \<^verbatim>\<open>+m\<close>, the scalar converted to a number.
\<close>

definition multiply :: "jsval \<Rightarrow> jsval list \<Rightarrow> jsval list" where
  "multiply m a =
     [js_mul m (at a 0), if at a 1 = Null then Null else js_mul m (at a 1)]"

definition op_multiply :: "codec \<Rightarrow> jsval \<Rightarrow> pitch \<Rightarrow> pitch" where
  "op_multiply cdc m a =
     (if \<not> truthy a then PNull
      else toPitch cdc (multiply (toNumber m) (fifths cdc a)))"

text \<open>A step or octave slot as the data model has it: an integer or \<^verbatim>\<open>null\<close>.\<close>

fun int_or_null :: "jsval \<Rightarrow> bool" where
  "int_or_null (Num k) = True"
| "int_or_null Null = True"
| "int_or_null NaN = False"
| "int_or_null Undefined = False"

subsection \<open>A sample codec\<close>

text \<open>
  Modelled from the spec: the codec (module \<^verbatim>\<open>pitch-fifths\<close>) is not under the sources;
  the specification gives its contract only (a tuple to a pair \<open>(fifths, octaves)\<close> with
  \<open>octaves\<close> an integer or null, and back) and the examples
  \<^verbatim>\<open>add([3,0,0],[4,0,0]) = [0,0,1]\<close> and \<^verbatim>\<open>multiply(2,[4,0,0]) = [1,0,1]\<close>.
  \<open>sample_codec\<close> is one codec that meets this contract and these two examples: the
  position of a note on the line of fifths, with an octave count. It serves as the
  concrete codec wherever a statement below is evaluated; the general theorems hold for
  every codec.

  \<open>BASES ! s\<close> is the pair of the natural note of step \<open>s\<close> (C, D, E, F, G, A, B); each
  alteration adds seven fifths and takes away four octaves. \<open>STEPS ! r\<close> is the step of
  the natural note at position \<open>r - 1\<close> on the line of fifths (F, C, G, D, A, E, B).
\<close>

definition BASES :: "(int \<times> int) list" where
  "BASES = [(0, 0), (2, - 1), (4, - 2), (- 1, 1), (1, 0), (3, - 1), (5, - 2)]"

text \<open>
  Modelled from the spec: the table of the sample decoder (the codec is not under the
  sources), the steps of F, C, G, D, A, E, B.
\<close>

definition STEPS :: "int list" where
  "STEPS = [3, 0, 4, 1, 5, 2, 6]"

text \<open>
  Modelled from the spec: the sample encoder, a tuple \<open>(step, alteration, octave)\<close> to a
  pair \<open>(fifths, octaves)\<close>, a null octave to a null octave count.
\<close>

definition sample_fifths :: "pitch \<Rightarrow> jsval list" where
  "sample_fifths p = (case p of
      PArray [Num s, Num alt, oct] \<Rightarrow>
        (if 0 \<le> s \<and> s < 7
         then [Num (fst (BASES ! nat s) + 7 * alt),
               (case oct of Num k \<Rightarrow> Num (snd (BASES ! nat s) - 4 * alt + k) | _ \<Rightarrow> Null)]
         else [NaN, Null])
    | _ \<Rightarrow> [NaN, Null])"

text \<open>
  Modelled from the spec: the sample decoder, a pair \<open>(fifths, octaves)\<close> back to a
  tuple.
\<close>

definition sample_toPitch :: "jsval list \<Rightarrow> pitch" where
  "sample_toPitch c = (case c of
      [Num f, oct] \<Rightarrow>
        (let step = STEPS ! nat ((f + 1) mod 7); alt = (f + 1) div 7
         in PArray [Num step, Num alt,
              (case oct of Num k \<Rightarrow> Num (k - snd (BASES ! nat step) + 4 * alt) | _ \<Rightarrow> Null)])
    | _ \<Rightarrow> PNull)"

text \<open>Modelled from the spec: the sample encoder and decoder as one codec.\<close>

definition sample_codec :: codec where
  "sample_codec = \<lparr> fifths = sample_fifths, toPitch = sample_toPitch \<rparr>"

section \<open>Auxiliary facts\<close>

lemma trunc_rem_nonneg: "0 \<le> f \<or> 7 dvd f \<Longrightarrow> trunc_rem f 7 = f mod 7"
  unfolding trunc_rem_def by (auto simp: sgn_if abs_if zmod_zminus1_eq_if)

lemma trunc_rem_neg: "f < 0 \<Longrightarrow> \<not> 7 dvd f \<Longrightarrow> trunc_rem f 7 < 0"
  unfolding trunc_rem_def
  by (auto simp: sgn_if abs_if mult_less_0_iff dvd_eq_mod_eq_0 zmod_zminus1_eq_if)

lemma trunc_rem_less: "trunc_rem f 7 < 7"
  unfolding trunc_rem_def by (auto simp: sgn_if abs_if)

lemma SEMITONES_index:
  assumes "0 \<le> r" "r < 7"
  shows "js_index SEMITONES (Num r) = Num ([0, 2, 4, 5, 7, 9, 11] ! nat r)"
proof -
  from assms have "r = 0 \<or> r = 1 \<or> r = 2 \<or> r = 3 \<or> r = 4 \<or> r = 5 \<or> r = 6" by arith
  then show ?thesis by (auto simp: SEMITONES_def)
qed

lemma semitones_triple:
  "semitones (PArray [a, b, c]) =
     Inr (js_add (js_add (js_index SEMITONES (js_rem a (Num 7))) b) (js_mul (Num 12) c))"
  by (simp add: semitones_def at_def)

lemma js_rem_7: "js_rem (Num f) (Num 7) = Num (trunc_rem f 7)"
  by (simp add: js_rem_def)

lemma js_mul_12_Null: "js_mul (Num 12) Null = js_mul (Num 12) (Num 0)"
  by (simp add: js_mul_def)

lemma js_add_not_Null: "js_add a b \<noteq> Null"
  by (simp add: js_add_def split: jsval.splits)

text \<open>
  The bound is sharp: \<open>2^53\<close> is safe and \<open>2^53 + 1\<close>, the first integer that is not
  a binary64 value, is not. So the sum \<open>2 + (2^53 - 1)\<close> and the difference
  \<open>- 2 - (2^53 - 1)\<close>, which the code rounds, are outside the safe range.
\<close>

lemma safe_int_boundary:
  "safe_int 9007199254740992" "\<not> safe_int 9007199254740993"
  "\<not> safe_int (2 + 9007199254740991)"
  "\<not> safe_slot (js_sub (Num (- 2)) (Num 9007199254740991))"
  by (simp_all add: safe_int_def js_sub_def)

lemma safe_slot_int_or_null: "safe_slot v \<Longrightarrow> int_or_null v"
  by (cases v) simp_all

lemma add_pairs:
  "add [Num f, oa] [Num g, ob] =
     [Num (f + g), if oa = Null \<or> ob = Null then Null else js_add oa ob]"
  by (simp add: add_def at_def js_add_def)

lemma subtract_pairs:
  "subtract [Num f, oa] [Num g, ob] =
     [Num (g - f), if oa \<noteq> Null \<and> ob \<noteq> Null then js_sub ob oa else Null]"
  by (simp add: subtract_def at_def js_sub_def)

lemma add_subtract_pairs:
  assumes "int_or_null oa" "int_or_null ob" "oa = Null \<longrightarrow> ob = Null"
  shows "add [Num f, oa] (subtract [Num f, oa] [Num g, ob]) = [Num g, ob]"
  using assms
  by (cases oa; cases ob) (simp_all add: add_pairs subtract_pairs js_add_def js_sub_def)

subsection \<open>The sample codec is a codec\<close>

lemma sample_codec_simps:
  "fifths sample_codec = sample_fifths" "toPitch sample_codec = sample_toPitch"
  by (simp_all add: sample_codec_def)

text \<open>Decoding undoes encoding on every tuple with a step from \<open>0\<close> to \<open>6\<close>.\<close>

lemma sample_decode_encode:
  assumes "0 \<le> s" "s < 7" "int_or_null oct"
  shows "sample_toPitch (sample_fifths (PArray [Num s, Num alt, oct]))
           = PArray [Num s, Num alt, oct]"
proof -
  from assms(1,2) have "s = 0 \<or> s = 1 \<or> s = 2 \<or> s = 3 \<or> s = 4 \<or> s = 5 \<or> s = 6"
    by arith
  then show ?thesis using assms(3)
    by (cases oct) (auto simp: sample_toPitch_def sample_fifths_def BASES_def STEPS_def Let_def)
qed

text \<open>Encoding undoes decoding on every pair.\<close>

lemma sample_encode_decode:
  assumes "int_or_null oct"
  shows "sample_fifths (sample_toPitch [Num f, oct]) = [Num f, oct]"
proof -
  define r where "r = (f + 1) mod 7"
  define q where "q = (f + 1) div 7"
  have f: "f = 7 * q + r - 1" unfolding r_def q_def by simp
  have "0 \<le> r" "r < 7" unfolding r_def by simp_all
  then have rc: "r = 0 \<or> r = 1 \<or> r = 2 \<or> r = 3 \<or> r = 4 \<or> r = 5 \<or> r = 6" by arith
  have st: "sample_toPitch [Num f, oct] = PArray [Num (STEPS ! nat r), Num q,
              (case oct of Num k \<Rightarrow> Num (k - snd (BASES ! nat (STEPS ! nat r)) + 4 * q)
               | _ \<Rightarrow> Null)]"
    by (cases oct) (simp_all add: sample_toPitch_def Let_def r_def q_def)
  have "sample_fifths (PArray [Num (STEPS ! nat r), Num q,
              (case oct of Num k \<Rightarrow> Num (k - snd (BASES ! nat (STEPS ! nat r)) + 4 * q)
               | _ \<Rightarrow> Null)])
        = [Num (7 * q + r - 1), oct]"
    using rc assms by (cases oct) (auto simp: sample_fifths_def BASES_def STEPS_def)
  then show ?thesis by (simp only: st f [symmetric])
qed

text \<open>The two examples of the specification that the sample codec was chosen to meet.\<close>

lemma sample_examples:
  "op_add sample_codec (PArray [Num 3, Num 0, Num 0]) (PArray [Num 4, Num 0, Num 0])
     = PArray [Num 0, Num 0, Num 1]"
  "op_multiply sample_codec (Num 2) (PArray [Num 4, Num 0, Num 0])
     = PArray [Num 1, Num 0, Num 1]"
  by (simp_all add: op_add_def op_multiply_def add_def multiply_def sample_codec_simps
        sample_fifths_def sample_toPitch_def BASES_def STEPS_def at_def js_add_def js_mul_def)

section \<open>Semitones\<close>

text \<open>
  C1 (as amended). Take a tuple whose first component is an integer \<open>f\<close> that is
  non-negative or a multiple of seven, whose step is an integer or null (null counts as
  \<open>0\<close>) and whose octave is an integer, and let the components, \<open>SEMITONES[f mod 7] +
  step\<close>, \<open>12 * octave\<close> and the total be of magnitude at most \<open>2^53\<close>, so that the
  arithmetic of the code is exact. Then \<open>semitones\<close> returns
  \<open>SEMITONES[f mod 7] + step + 12 * octave\<close>; in particular \<open>semitones (0,0,0) = 0\<close> and
  \<open>semitones (1,1,0) = 3\<close>.
\<close>

theorem semitones_formula:
  assumes "0 \<le> f \<or> 7 dvd f"
    and "toNumber s = Num n"
    and "safe_int f" and "safe_int n" and "safe_int k"
    and "safe_int ([0, 2, 4, 5, 7, 9, 11] ! nat (f mod 7) + n)"
    and "safe_int (12 * k)"
    and "safe_int (semitones_spec f n k)"
  shows "semitones (PArray [Num f, s, Num k]) = Inr (Num (semitones_spec f n k))
       \<and> semitones (PArray [Num 0, Num 0, Num 0]) = Inr (Num 0)
       \<and> semitones (PArray [Num 1, Num 1, Num 0]) = Inr (Num 3)"
proof -
  have r: "trunc_rem f 7 = f mod 7" using assms(1) by (rule trunc_rem_nonneg)
  have "js_index SEMITONES (Num (f mod 7)) = Num ([0, 2, 4, 5, 7, 9, 11] ! nat (f mod 7))"
    by (rule SEMITONES_index) simp_all
  then have "semitones (PArray [Num f, s, Num k]) = Inr (Num (semitones_spec f n k))"
    using assms(2)
    by (simp add: semitones_triple js_rem_7 r js_add_def js_mul_def semitones_spec_def)
  moreover have "semitones (PArray [Num 0, Num 0, Num 0]) = Inr (Num 0)"
    by (simp add: semitones_triple js_rem_7 trunc_rem_def SEMITONES_def js_add_def js_mul_def)
  moreover have "semitones (PArray [Num 1, Num 1, Num 0]) = Inr (Num 3)"
    by (simp add: semitones_triple js_rem_7 trunc_rem_def SEMITONES_def js_add_def js_mul_def)
  ultimately show ?thesis by simp
qed

theorem semitones_formula_witness:
  "(0 \<le> (8::int) \<or> 7 dvd (8::int)) \<and> toNumber (Num (- 1)) = Num (- 1)
   \<and> safe_int 8 \<and> safe_int (- 1) \<and> safe_int 2
   \<and> safe_int ([0, 2, 4, 5, 7, 9, 11] ! nat (8 mod 7) + (- 1))
   \<and> safe_int (12 * 2) \<and> safe_int (semitones_spec 8 (- 1) 2)
   \<and> semitones (PArray [Num 8, Num (- 1), Num 2]) = Inr (Num 25)
   \<and> toNumber Null = Num 0
   \<and> semitones (PArray [Num 8, Null, Num 2]) = Inr (Num 26)"
proof -
  have f: "0 \<le> (8::int) \<or> 7 dvd (8::int)" by simp
  have s1: "toNumber (Num (- 1)) = Num (- 1)" by simp
  have s2: "toNumber Null = Num 0" by simp
  have safe: "safe_int 8" "safe_int (- 1)" "safe_int 0" "safe_int 2" "safe_int (12 * 2)"
    by (simp_all add: safe_int_def)
  have t1: "safe_int ([0, 2, 4, 5, 7, 9, 11] ! nat (8 mod 7) + (- 1))"
    by (simp add: safe_int_def)
  have t2: "safe_int ([0, 2, 4, 5, 7, 9, 11] ! nat (8 mod 7) + 0)"
    by (simp add: safe_int_def)
  have r1: "safe_int (semitones_spec 8 (- 1) 2)"
    by (simp add: safe_int_def semitones_spec_def)
  have r2: "safe_int (semitones_spec 8 0 2)"
    by (simp add: safe_int_def semitones_spec_def)
  from semitones_formula [OF f s1 safe(1) safe(2) safe(4) t1 safe(5) r1]
    semitones_formula [OF f s2 safe(1) safe(3) safe(4) t2 safe(5) r2]
    f s1 s2 safe t1 r1
  show ?thesis by (simp add: semitones_spec_def)
qed

text \<open>
  The formula with the mathematical \<open>mod\<close> fails at \<open>(-1,0,0)\<close>: \<^verbatim>\<open>-1 % 7\<close> is \<open>-1\<close>,
  the table has no such index, and the sum is \<open>NaN\<close>, where the formula gives \<open>11\<close>.
\<close>

theorem semitones_formula_counterexample:
  "semitones (PArray [Num (- 1), Num 0, Num 0]) = Inr NaN
   \<and> semitones_spec (- 1) 0 0 = 11
   \<and> semitones (PArray [Num (- 1), Num 0, Num 0]) \<noteq> Inr (Num (semitones_spec (- 1) 0 0))"
  by (simp add: semitones_triple js_rem_7 trunc_rem_def js_add_def semitones_spec_def)

text \<open>
  C2 (as amended). For a tuple whose octave slot is null, \<open>semitones\<close> has no guard:
  \<^verbatim>\<open>12 * null\<close> is \<open>0\<close>, and the result is the result for the same tuple with octave
  \<open>0\<close>, neither an exception nor null.
\<close>

theorem semitones_null_octave_unguarded:
  "semitones (PArray [a, b, Null]) = semitones (PArray [a, b, Num 0])
   \<and> semitones (PArray [a, b, Null]) \<noteq> Inr Null
   \<and> semitones (PArray [a, b, Null]) \<noteq> Inl e"
  by (simp add: semitones_triple js_mul_12_Null js_add_not_Null)

theorem semitones_null_octave_unguarded_witness:
  "semitones (PArray [Num 4, Null, Null]) = Inr (Num 7)"
  using semitones_null_octave_unguarded [of "Num 4" Null]
  by (simp add: semitones_triple js_rem_7 trunc_rem_def SEMITONES_def js_add_def js_mul_def)

text \<open>With a null octave the result at \<open>(0,0,null)\<close> is the number \<open>0\<close>, not \<open>NaN\<close>.\<close>

theorem semitones_null_octave_counterexample:
  "semitones (PArray [Num 0, Num 0, Null]) = Inr (Num 0)
   \<and> semitones (PArray [Num 0, Num 0, Null]) \<noteq> Inr NaN"
  by (simp add: semitones_triple js_rem_7 trunc_rem_def SEMITONES_def js_add_def js_mul_def)

text \<open>
  C9. For a tuple with a null octave slot, an integer first component \<open>f\<close> with
  \<^verbatim>\<open>0 <= f % 7\<close> (so that it indexes the table) and a step that is an integer or null,
  \<open>semitones\<close> returns a number, the one it returns for the same tuple with octave \<open>0\<close>.
\<close>

theorem semitones_null_octave_as_zero:
  assumes "0 \<le> trunc_rem f 7" and "int_or_null s"
  shows "semitones (PArray [Num f, s, Null]) = semitones (PArray [Num f, s, Num 0])
       \<and> (\<exists>n. semitones (PArray [Num f, s, Null]) = Inr (Num n))"
proof -
  have "js_index SEMITONES (Num (trunc_rem f 7)) =
          Num ([0, 2, 4, 5, 7, 9, 11] ! nat (trunc_rem f 7))"
    using assms(1) trunc_rem_less by (rule SEMITONES_index)
  then show ?thesis using assms(2)
    by (cases s) (simp_all add: semitones_triple js_rem_7 js_add_def js_mul_def)
qed

theorem semitones_null_octave_as_zero_witness:
  "0 \<le> trunc_rem 9 7 \<and> int_or_null (Num 1)
   \<and> semitones (PArray [Num 9, Num 1, Null]) = Inr (Num 5)
   \<and> semitones (PArray [Num 9, Num 1, Num 0]) = Inr (Num 5)"
  using semitones_null_octave_as_zero [of 9 "Num 1"]
  by (simp add: semitones_triple js_rem_7 trunc_rem_def SEMITONES_def js_add_def js_mul_def)

text \<open>
  C10. For a tuple whose first component \<open>f\<close> is negative and not a multiple of seven,
  \<^verbatim>\<open>f % 7\<close> is negative, the table lookup is \<^verbatim>\<open>undefined\<close>, and \<open>semitones\<close> returns
  \<open>NaN\<close> whatever the other two slots hold, not the value of the formula with the
  mathematical \<open>mod\<close>.
\<close>

theorem semitones_negative_fifths:
  assumes "f < 0" and "\<not> 7 dvd f"
  shows "js_rem (Num f) (Num 7) = Num (trunc_rem f 7) \<and> trunc_rem f 7 < 0
       \<and> js_index SEMITONES (js_rem (Num f) (Num 7)) = Undefined
       \<and> semitones (PArray [Num f, s, k]) = Inr NaN
       \<and> semitones (PArray [Num f, Num m, Num n]) \<noteq> Inr (Num (semitones_spec f m n))"
proof -
  have neg: "trunc_rem f 7 < 0" using assms by (rule trunc_rem_neg)
  then have "js_index SEMITONES (Num (trunc_rem f 7)) = Undefined" by simp
  then show ?thesis using neg
    by (simp add: semitones_triple js_rem_7 js_add_def)
qed

theorem semitones_negative_fifths_witness:
  "(- 3 :: int) < 0 \<and> \<not> 7 dvd (- 3 :: int)
   \<and> js_rem (Num (- 3)) (Num 7) = Num (- 3)
   \<and> semitones (PArray [Num (- 3), Num 0, Num 4]) = Inr NaN
   \<and> semitones_spec (- 3) 0 4 = 55"
  using semitones_negative_fifths [of "- 3" "Num 0" "Num 4" 0 4]
  by (simp add: trunc_rem_def semitones_spec_def)

section \<open>Octaves and ordering\<close>

text \<open>
  C6. \<open>simplify p\<close> equals \<open>setOctave 0 p\<close>, for every tuple \<open>p\<close> (and for null as
  well).
\<close>

theorem simplify_is_setOctave_zero:
  "simplify p = setOctave (Num 0) p"
  by (simp add: simplify_def setOctave_def)

theorem simplify_is_setOctave_zero_witness:
  "simplify (PArray [Num 1, Num 2, Num 3]) = Inr (PArray [Num 1, Num 2, Num 0])
   \<and> setOctave (Num 0) (PArray [Num 1, Num 2, Num 3]) = Inr (PArray [Num 1, Num 2, Num 0])"
  using simplify_is_setOctave_zero [of "PArray [Num 1, Num 2, Num 3]"]
  by (simp add: setOctave_def setOctave1_def at_def)



section \<open>Combining operations\<close>

text \<open>
  C3 (as amended). Let \<open>a\<close> and \<open>b\<close> be non-null tuples that the codec encodes as pairs
  of an integer and an integer-or-null octave, with the octave of \<open>b\<close> null whenever the
  octave of \<open>a\<close> is, and let the components of both pairs and their differences (of the
  fifths, and of the octaves) be of magnitude at most \<open>2^53\<close>, so that the arithmetic of
  the code is exact. If the codec decodes the pair that \<open>subtract\<close> builds to a non-null
  tuple and round-trips (encoding undoes decoding at that pair, decoding undoes encoding
  at \<open>b\<close>), then \<open>add(a, subtract(a, b)) = b\<close>.
\<close>

theorem add_subtract_inverse:
  assumes "truthy a" and "truthy b"
    and "fifths cdc a = [Num f, oa]" and "fifths cdc b = [Num g, ob]"
    and "safe_int f" and "safe_int g" and "safe_int (g - f)"
    and "safe_slot oa" and "safe_slot ob" and "safe_slot (js_sub ob oa)"
    and "oa = Null \<longrightarrow> ob = Null"
    and "truthy (toPitch cdc (subtract [Num f, oa] [Num g, ob]))"
    and "fifths cdc (toPitch cdc (subtract [Num f, oa] [Num g, ob]))
           = subtract [Num f, oa] [Num g, ob]"
    and "toPitch cdc (fifths cdc b) = b"
  shows "op_add cdc a (op_subtract cdc a b) = b"
proof -
  have slots: "int_or_null oa" "int_or_null ob"
    using assms(8,9) by (simp_all add: safe_slot_int_or_null)
  have sub: "op_subtract cdc a b = toPitch cdc (subtract [Num f, oa] [Num g, ob])"
    using assms(1-4) by (simp add: op_subtract_def)
  have "op_add cdc a (op_subtract cdc a b)
          = toPitch cdc (add [Num f, oa] (subtract [Num f, oa] [Num g, ob]))"
    using assms(1,3,12,13) by (simp add: op_add_def sub)
  also have "\<dots> = toPitch cdc [Num g, ob]"
    using slots assms(11) by (simp only: add_subtract_pairs)
  also have "\<dots> = b" using assms(4,14) by simp
  finally show ?thesis .
qed

theorem add_subtract_inverse_witness:
  "op_add sample_codec (PArray [Num 4, Num 0, Num 0])
     (op_subtract sample_codec (PArray [Num 4, Num 0, Num 0]) (PArray [Num 3, Num 1, Num 2]))
   = PArray [Num 3, Num 1, Num 2]"
proof (rule add_subtract_inverse [where f = 1 and oa = "Num 0" and g = 6 and ob = "Num (- 1)"])
  show "truthy (PArray [Num 4, Num 0, Num 0])" by simp
  show "truthy (PArray [Num 3, Num 1, Num 2])" by simp
  show "fifths sample_codec (PArray [Num 4, Num 0, Num 0]) = [Num 1, Num 0]"
    by (simp add: sample_codec_simps sample_fifths_def BASES_def)
  show "fifths sample_codec (PArray [Num 3, Num 1, Num 2]) = [Num 6, Num (- 1)]"
    by (simp add: sample_codec_simps sample_fifths_def BASES_def)
  show "safe_int 1" by (simp add: safe_int_def)
  show "safe_int 6" by (simp add: safe_int_def)
  show "safe_int (6 - 1)" by (simp add: safe_int_def)
  show "safe_slot (Num 0)" by (simp add: safe_int_def)
  show "safe_slot (Num (- 1))" by (simp add: safe_int_def)
  show "safe_slot (js_sub (Num (- 1)) (Num 0))" by (simp add: js_sub_def safe_int_def)
  show "Num 0 = Null \<longrightarrow> Num (- 1) = Null" by simp
  show "truthy (toPitch sample_codec (subtract [Num 1, Num 0] [Num 6, Num (- 1)]))"
    by (simp add: sample_codec_simps subtract_pairs js_sub_def sample_toPitch_def Let_def)
  show "fifths sample_codec (toPitch sample_codec (subtract [Num 1, Num 0] [Num 6, Num (- 1)]))
          = subtract [Num 1, Num 0] [Num 6, Num (- 1)]"
    by (simp add: sample_codec_simps subtract_pairs js_sub_def sample_toPitch_def Let_def
          sample_fifths_def BASES_def STEPS_def)
  show "toPitch sample_codec (fifths sample_codec (PArray [Num 3, Num 1, Num 2]))
          = PArray [Num 3, Num 1, Num 2]"
    by (simp add: sample_codec_simps sample_toPitch_def Let_def
          sample_fifths_def BASES_def STEPS_def)
qed

text \<open>
  With \<open>a = (0,0,null)\<close> and \<open>b = (0,0,0)\<close> the sample codec round-trips at both, yet
  \<open>add(a, subtract(a, b))\<close> is \<open>(0,0,null)\<close>: the unset octave of \<open>a\<close> is propagated and
  the octave of \<open>b\<close> is lost.
\<close>

theorem add_subtract_inverse_counterexample:
  "toPitch sample_codec (fifths sample_codec (PArray [Num 0, Num 0, Null]))
     = PArray [Num 0, Num 0, Null]
   \<and> toPitch sample_codec (fifths sample_codec (PArray [Num 0, Num 0, Num 0]))
     = PArray [Num 0, Num 0, Num 0]
   \<and> op_subtract sample_codec (PArray [Num 0, Num 0, Null]) (PArray [Num 0, Num 0, Num 0])
     = PArray [Num 0, Num 0, Null]
   \<and> op_add sample_codec (PArray [Num 0, Num 0, Null])
       (op_subtract sample_codec (PArray [Num 0, Num 0, Null]) (PArray [Num 0, Num 0, Num 0]))
     = PArray [Num 0, Num 0, Null]
   \<and> op_add sample_codec (PArray [Num 0, Num 0, Null])
       (op_subtract sample_codec (PArray [Num 0, Num 0, Null]) (PArray [Num 0, Num 0, Num 0]))
     \<noteq> PArray [Num 0, Num 0, Num 0]"
  by (simp add: op_add_def op_subtract_def add_def subtract_def sample_codec_simps
        sample_fifths_def sample_toPitch_def BASES_def STEPS_def at_def js_add_def js_sub_def)

text \<open>
  C4. For non-null operands \<open>a\<close> and \<open>b\<close>, if the octave component of the fifths-space
  pair of either is null, then the octave component of the pair that \<open>add\<close> and
  \<open>subtract\<close> build is null, and \<open>op.add\<close> and \<open>op.subtract\<close> return the decoding of
  a pair with a null octave. \<open>multiply\<close> propagates the null octave of its operand in
  the same way.
\<close>

theorem unset_octave_propagates:
  assumes "truthy a" and "truthy b"
    and "at (fifths cdc a) 1 = Null \<or> at (fifths cdc b) 1 = Null"
  shows "at (add (fifths cdc a) (fifths cdc b)) 1 = Null
       \<and> at (subtract (fifths cdc a) (fifths cdc b)) 1 = Null
       \<and> op_add cdc a b
           = toPitch cdc [js_add (at (fifths cdc a) 0) (at (fifths cdc b) 0), Null]
       \<and> op_subtract cdc a b
           = toPitch cdc [js_sub (at (fifths cdc b) 0) (at (fifths cdc a) 0), Null]
       \<and> (at (fifths cdc a) 1 = Null \<longrightarrow>
            at (multiply (toNumber m) (fifths cdc a)) 1 = Null
          \<and> op_multiply cdc m a
              = toPitch cdc [js_mul (toNumber m) (at (fifths cdc a) 0), Null])"
proof -
  have "at (add (fifths cdc a) (fifths cdc b)) 1 = Null"
    using assms(3) by (auto simp: add_def at_def)
  moreover have "at (subtract (fifths cdc a) (fifths cdc b)) 1 = Null"
    using assms(3) by (auto simp: subtract_def at_def)
  moreover have "op_add cdc a b
           = toPitch cdc [js_add (at (fifths cdc a) 0) (at (fifths cdc b) 0), Null]"
    using assms by (auto simp: op_add_def add_def)
  moreover have "op_subtract cdc a b
           = toPitch cdc [js_sub (at (fifths cdc b) 0) (at (fifths cdc a) 0), Null]"
    using assms by (auto simp: op_subtract_def subtract_def)
  moreover have "at (fifths cdc a) 1 = Null \<longrightarrow>
            at (multiply (toNumber m) (fifths cdc a)) 1 = Null
          \<and> op_multiply cdc m a
              = toPitch cdc [js_mul (toNumber m) (at (fifths cdc a) 0), Null]"
    using assms(1) by (auto simp: op_multiply_def multiply_def at_def)
  ultimately show ?thesis by blast
qed

theorem unset_octave_propagates_witness:
  "op_add sample_codec (PArray [Num 4, Num 0, Null]) (PArray [Num 3, Num 0, Num 2])
     = PArray [Num 0, Num 0, Null]
   \<and> op_subtract sample_codec (PArray [Num 4, Num 0, Null]) (PArray [Num 3, Num 0, Num 2])
     = PArray [Num 6, Num (- 1), Null]
   \<and> op_multiply sample_codec (Num 2) (PArray [Num 4, Num 0, Null])
     = PArray [Num 1, Num 0, Null]"
proof -
  have a: "truthy (PArray [Num 4, Num 0, Null])" by simp
  have b: "truthy (PArray [Num 3, Num 0, Num 2])" by simp
  have fa: "fifths sample_codec (PArray [Num 4, Num 0, Null]) = [Num 1, Null]"
    by (simp add: sample_codec_simps sample_fifths_def BASES_def)
  have fb: "fifths sample_codec (PArray [Num 3, Num 0, Num 2]) = [Num (- 1), Num 3]"
    by (simp add: sample_codec_simps sample_fifths_def BASES_def)
  have n: "at (fifths sample_codec (PArray [Num 4, Num 0, Null])) 1 = Null
         \<or> at (fifths sample_codec (PArray [Num 3, Num 0, Num 2])) 1 = Null"
    by (simp add: fa at_def)
  from unset_octave_propagates [OF a b n, of "Num 2"] show ?thesis
    by (simp add: fa fb at_def js_add_def js_sub_def js_mul_def sample_codec_simps(2)
          sample_toPitch_def STEPS_def Let_def)
qed

text \<open>
  C5 (as amended). No operation throws. On a null input every operation returns null.
  On an undefined input \<open>pitchClass\<close>, \<open>setOctave\<close>, \<open>semitones\<close>, \<open>add\<close>,
  \<open>subtract\<close> and \<open>multiply\<close> return null as well, and \<open>setDefaultOctave\<close> returns its
  input, \<^verbatim>\<open>undefined\<close>. In particular \<open>add(a, null) = null\<close> and \<open>add(null, b) = null\<close>
  for any \<open>a\<close> and \<open>b\<close>.
\<close>

theorem null_propagation:
  "pitchClass PNull = Inr PNull \<and> pitchClass PUndefined = Inr PNull
   \<and> setOctave n PNull = Inr PNull \<and> setOctave n PUndefined = Inr PNull
   \<and> setOctave1 n PNull = Inr PNull \<and> setOctave1 n PUndefined = Inr PNull
   \<and> setDefaultOctave n PNull = Inr PNull \<and> setDefaultOctave n PUndefined = Inr PUndefined
   \<and> setDefaultOctave1 n PNull = Inr PNull \<and> setDefaultOctave1 n PUndefined = Inr PUndefined
   \<and> semitones PNull = Inr Null \<and> semitones PUndefined = Inr Null
   \<and> op_add cdc a PNull = PNull \<and> op_add cdc PNull b = PNull
   \<and> op_add cdc a PUndefined = PNull \<and> op_add cdc PUndefined b = PNull
   \<and> op_subtract cdc a PNull = PNull \<and> op_subtract cdc PNull b = PNull
   \<and> op_subtract cdc a PUndefined = PNull \<and> op_subtract cdc PUndefined b = PNull
   \<and> op_multiply cdc m PNull = PNull \<and> op_multiply cdc m PUndefined = PNull
   \<and> pitchClass p \<noteq> Inl e \<and> setOctave n p \<noteq> Inl e \<and> setDefaultOctave n p \<noteq> Inl e
   \<and> semitones p \<noteq> Inl e"
proof -
  have 1: "pitchClass PNull = Inr PNull \<and> pitchClass PUndefined = Inr PNull"
    by (simp add: pitchClass_def)
  have 2: "setOctave n PNull = Inr PNull \<and> setOctave n PUndefined = Inr PNull
         \<and> setOctave1 n PNull = Inr PNull \<and> setOctave1 n PUndefined = Inr PNull"
    by (simp add: setOctave_def setOctave1_def)
  have 3: "setDefaultOctave n PNull = Inr PNull
         \<and> setDefaultOctave n PUndefined = Inr PUndefined
         \<and> setDefaultOctave1 n PNull = Inr PNull
         \<and> setDefaultOctave1 n PUndefined = Inr PUndefined"
    by (simp add: setDefaultOctave_def setDefaultOctave1_def)
  have 4: "semitones PNull = Inr Null \<and> semitones PUndefined = Inr Null"
    by (simp add: semitones_def)
  have 5: "op_add cdc a PNull = PNull \<and> op_add cdc PNull b = PNull
         \<and> op_add cdc a PUndefined = PNull \<and> op_add cdc PUndefined b = PNull"
    by (simp add: op_add_def)
  have 6: "op_subtract cdc a PNull = PNull \<and> op_subtract cdc PNull b = PNull
         \<and> op_subtract cdc a PUndefined = PNull \<and> op_subtract cdc PUndefined b = PNull"
    by (simp add: op_subtract_def)
  have 7: "op_multiply cdc m PNull = PNull \<and> op_multiply cdc m PUndefined = PNull"
    by (simp add: op_multiply_def)
  have 8: "pitchClass p \<noteq> Inl e" by (cases p) (simp_all add: pitchClass_def)
  have 9: "setOctave n p \<noteq> Inl e" by (cases p) (simp_all add: setOctave_def setOctave1_def)
  have 10: "setDefaultOctave n p \<noteq> Inl e"
    by (cases p) (simp_all add: setDefaultOctave_def setDefaultOctave1_def)
  have 11: "semitones p \<noteq> Inl e" by (cases p) (simp_all add: semitones_def)
  from 1 2 3 4 5 6 7 8 9 10 11 show ?thesis by simp
qed

theorem null_propagation_witness:
  "op_add sample_codec (PArray [Num 1, Num 0, Num 0]) PNull = PNull
   \<and> op_add sample_codec PNull (PArray [Num 1, Num 0, Num 0]) = PNull
   \<and> setDefaultOctave (Num 4) PUndefined = Inr PUndefined
   \<and> semitones (PArray [Num 1, Num 1, Num 0]) \<noteq> Inl TypeError"
  using null_propagation [of "Num 4" sample_codec "PArray [Num 1, Num 0, Num 0]"
      "PArray [Num 1, Num 0, Num 0]" "Num 1" "PArray [Num 1, Num 1, Num 0]" TypeError]
  by simp

text \<open>
  On an undefined input \<open>setDefaultOctave\<close> returns \<^verbatim>\<open>undefined\<close>, which is not null.
\<close>

theorem null_propagation_counterexample:
  "setDefaultOctave (Num 4) PUndefined = Inr PUndefined
   \<and> setDefaultOctave (Num 4) PUndefined \<noteq> Inr PNull"
  by (simp add: setDefaultOctave_def setDefaultOctave1_def)

text \<open>
  C8 (as amended). Let \<open>a\<close> be a non-null tuple that the codec encodes as a pair of an
  integer and an integer-or-null octave and decodes back to \<open>a\<close>. Then
  \<open>multiply(1, a) = a\<close>, and \<open>multiply(0, a)\<close> is the decoding of \<open>(0, 0)\<close> when the
  octave of the pair is an integer and the decoding of \<open>(0, null)\<close> when it is null.
\<close>

theorem multiply_one_zero:
  assumes "truthy a" and "fifths cdc a = [Num f, oct]" and "int_or_null oct"
    and "toPitch cdc (fifths cdc a) = a"
  shows "op_multiply cdc (Num 1) a = a
       \<and> op_multiply cdc (Num 0) a
           = toPitch cdc [Num 0, if oct = Null then Null else Num 0]"
  using assms
  by (cases oct) (auto simp: op_multiply_def multiply_def at_def js_mul_def)

theorem multiply_one_zero_witness:
  "op_multiply sample_codec (Num 1) (PArray [Num 3, Num 1, Num 2])
     = PArray [Num 3, Num 1, Num 2]
   \<and> op_multiply sample_codec (Num 0) (PArray [Num 3, Num 1, Num 2])
     = PArray [Num 0, Num 0, Num 0]
   \<and> toPitch sample_codec [Num 0, Num 0] = PArray [Num 0, Num 0, Num 0]"
proof -
  have a: "truthy (PArray [Num 3, Num 1, Num 2])" by simp
  have fa: "fifths sample_codec (PArray [Num 3, Num 1, Num 2]) = [Num 6, Num (- 1)]"
    by (simp add: sample_codec_simps sample_fifths_def BASES_def)
  have o: "int_or_null (Num (- 1))" by simp
  have rt: "toPitch sample_codec (fifths sample_codec (PArray [Num 3, Num 1, Num 2]))
              = PArray [Num 3, Num 1, Num 2]"
    by (simp add: sample_codec_simps sample_toPitch_def Let_def sample_fifths_def
          BASES_def STEPS_def)
  from multiply_one_zero [OF a fa o rt] show ?thesis
    by (simp add: sample_codec_simps sample_toPitch_def Let_def BASES_def STEPS_def)
qed

text \<open>
  For the pitch class \<open>(0,0,null)\<close> the product with \<open>0\<close> is the decoding of
  \<open>(0, null)\<close>, which is \<open>(0,0,null)\<close> and not the decoding \<open>(0,0,0)\<close> of \<open>(0, 0)\<close>.
\<close>

theorem multiply_one_zero_counterexample:
  "op_multiply sample_codec (Num 0) (PArray [Num 0, Num 0, Null])
     = PArray [Num 0, Num 0, Null]
   \<and> toPitch sample_codec [Num 0, Num 0] = PArray [Num 0, Num 0, Num 0]
   \<and> op_multiply sample_codec (Num 0) (PArray [Num 0, Num 0, Null])
       \<noteq> toPitch sample_codec [Num 0, Num 0]"
  by (simp add: op_multiply_def multiply_def sample_codec_simps
        sample_fifths_def sample_toPitch_def BASES_def STEPS_def at_def js_mul_def)

end
